theory Spec2Isabelle
  imports Main "HOL-Library.AList" "HOL-Library.Sublist"
begin

section \<open>Values, errors and strings\<close>

text \<open>
  A cell of a pandas table holds a string, a number or the missing value.  The numbers
  the dashboard reads (\<open>work_year\<close>, \<open>remote_ratio\<close>, salaries) are integers.
  A string is a list of characters; the keywords of \<open>app.py\<close> are all ASCII.
\<close>

datatype cell = Str string | Num int | NaN

datatype error = KeyError string | AttributeError | TypeError | ValueError | IndexingError

text \<open>A raised exception ends the computation: the first \<open>Inl\<close> is the result.\<close>

definition and_then :: "error + 'a \<Rightarrow> ('a \<Rightarrow> error + 'b) \<Rightarrow> error + 'b" where
  "and_then r f = (case r of Inl e \<Rightarrow> Inl e | Inr x \<Rightarrow> f x)"

text \<open>\<open>str.lower()\<close> on ASCII: the letters \<open>A\<close> to \<open>Z\<close> move to \<open>a\<close> to \<open>z\<close>,
  every other character stays.\<close>

definition lower_char :: "char \<Rightarrow> char" where
  "lower_char c =
     (let n = (of_char c :: nat) in if 65 \<le> n \<and> n \<le> 90 then char_of (n + 32) else c)"

definition lower :: "string \<Rightarrow> string" where
  "lower s = map lower_char s"

text \<open>\<open>sub in s\<close> on strings: \<open>sub\<close> occurs in \<open>s\<close> as a contiguous block.\<close>

fun starts_with :: "string \<Rightarrow> string \<Rightarrow> bool" where
  "starts_with [] s = True"
| "starts_with (a # as) [] = False"
| "starts_with (a # as) (c # cs) = (a = c \<and> starts_with as cs)"

fun contains :: "string \<Rightarrow> string \<Rightarrow> bool" where
  "contains sub [] = (sub = [])"
| "contains sub (c # cs) = (starts_with sub (c # cs) \<or> contains sub cs)"


section \<open>The derived fields of \<open>load_data\<close>\<close>

subsection \<open>Categorical recodes: \<open>Series.map\<close> with a dictionary\<close>

definition exp_level_map :: "string \<rightharpoonup> string" where
  "exp_level_map = map_of
     [(''EN'', ''Entry-level''), (''MI'', ''Mid-level''),
      (''SE'', ''Senior-level''), (''EX'', ''Executive-level'')]"

definition emp_type_map :: "string \<rightharpoonup> string" where
  "emp_type_map = map_of
     [(''FT'', ''Full-time''), (''PT'', ''Part-time''),
      (''CT'', ''Contract''), (''FL'', ''Freelance'')]"

definition company_size_map :: "string \<rightharpoonup> string" where
  "company_size_map = map_of
     [(''S'', ''Small''), (''M'', ''Medium''), (''L'', ''Large'')]"

text \<open>A value that is no key of the dictionary (a missing value and a number among
  them) becomes the missing value; nothing is raised.\<close>

definition map_cell :: "(string \<rightharpoonup> string) \<Rightarrow> cell \<Rightarrow> cell" where
  "map_cell m c =
     (case c of
        Str k \<Rightarrow> (case m k of Some v \<Rightarrow> Str v | None \<Rightarrow> NaN)
      | _ \<Rightarrow> NaN)"

definition series_map :: "(string \<rightharpoonup> string) \<Rightarrow> cell list \<Rightarrow> cell list" where
  "series_map m s = map (map_cell m) s"

subsection \<open>\<open>pd.cut\<close> with explicit bin edges\<close>

text \<open>
  With the defaults \<open>right=True\<close> and \<open>include_lowest=False\<close>, \<open>pd.cut\<close> places a
  value by \<open>bins.searchsorted(x, side='left')\<close>, the number of edges below the value, and
  makes it missing when that index is \<open>0\<close> or \<open>len(bins)\<close>: the bins are the intervals
  \<open>(b\<^sub>i, b\<^sub>i\<^sub>+\<^sub>1]\<close>.  A missing value stays missing and a string cannot be compared with
  the edges.
\<close>

definition searchsorted_left :: "int list \<Rightarrow> int \<Rightarrow> nat" where
  "searchsorted_left bins x = length (takeWhile (\<lambda>b. b < x) bins)"

definition cut_cell :: "int list \<Rightarrow> string list \<Rightarrow> cell \<Rightarrow> error + cell" where
  "cut_cell bins labels c =
     (case c of
        Num x \<Rightarrow>
          (let i = searchsorted_left bins x in
           if i = 0 \<or> i = length bins then Inr NaN else Inr (Str (labels ! (i - 1))))
      | NaN \<Rightarrow> Inr NaN
      | Str _ \<Rightarrow> Inl TypeError)"

text \<open>A function applied along a column; the first exception is the result.\<close>

fun series_apply :: "(cell \<Rightarrow> error + cell) \<Rightarrow> cell list \<Rightarrow> error + cell list" where
  "series_apply f [] = Inr []"
| "series_apply f (c # cs) =
     and_then (f c) (\<lambda>y. and_then (series_apply f cs) (\<lambda>ys. Inr (y # ys)))"

definition cut :: "cell list \<Rightarrow> int list \<Rightarrow> string list \<Rightarrow> error + cell list" where
  "cut s bins labels =
     (if length labels \<noteq> length bins - 1 then Inl ValueError
      else series_apply (cut_cell bins labels) s)"

definition remote_bins :: "int list" where
  "remote_bins = [-1, 0, 50, 100]"

definition remote_labels :: "string list" where
  "remote_labels = [''On-site'', ''Hybrid'', ''Full-remote'']"

subsection \<open>\<open>get_region\<close>\<close>

definition americas :: "string list" where
  "americas = [''US'', ''CA'', ''MX'', ''BR'', ''CO'']"

definition europe :: "string list" where
  "europe = [''GB'', ''DE'', ''ES'', ''FR'', ''NL'', ''PT'', ''CH'', ''IE'', ''AT'', ''SI'', ''HR'']"

definition asia :: "string list" where
  "asia = [''IN'', ''SG'', ''JP'', ''HK'', ''IL'', ''AE'', ''PK'', ''TH'']"

definition oceania :: "string list" where
  "oceania = [''AU'', ''NZ'']"

definition africa :: "string list" where
  "africa = [''NG'', ''KE'', ''GH'']"

text \<open>\<open>x in codes\<close> for a cell: only a string can equal one of the codes.\<close>

definition in_list :: "cell \<Rightarrow> string list \<Rightarrow> bool" where
  "in_list c codes = (case c of Str s \<Rightarrow> s \<in> set codes | _ \<Rightarrow> False)"

definition get_region :: "cell \<Rightarrow> cell" where
  "get_region country_code =
     (if in_list country_code americas then Str ''Americas''
      else if in_list country_code europe then Str ''Europe''
      else if in_list country_code asia then Str ''Asia''
      else if in_list country_code oceania then Str ''Oceania''
      else if in_list country_code africa then Str ''Africa''
      else Str ''Other'')"

subsection \<open>\<open>categorize_job\<close>\<close>

text \<open>\<open>title.lower()\<close> exists only on a string: a missing or numeric title raises.\<close>

definition categorize_job :: "cell \<Rightarrow> error + cell" where
  "categorize_job c =
     (case c of
        Str t \<Rightarrow>
          (let title = lower t in
           if contains ''data scientist'' title then Inr (Str ''Data Scientist'')
           else if contains ''data engineer'' title then Inr (Str ''Data Engineer'')
           else if contains ''data analyst'' title then Inr (Str ''Data Analyst'')
           else if contains ''machine learning'' title \<or> contains ''ml'' title
             then Inr (Str ''Machine Learning Engineer'')
           else if contains ''research'' title \<or> contains ''scientist'' title
             then Inr (Str ''Research Scientist'')
           else if contains ''analytics'' title then Inr (Str ''Analytics Engineer'')
           else if contains ''architect'' title then Inr (Str ''Data Architect'')
           else if contains ''manager'' title \<or> contains ''lead'' title
                 \<or> contains ''director'' title \<or> contains ''head'' title
             then Inr (Str ''Management'')
           else Inr (Str ''Other''))
      | _ \<Rightarrow> Inl AttributeError)"


section \<open>Tables\<close>

text \<open>
  A \<open>DataFrame\<close> is column-oriented: the row labels (\<open>index\<close>) and the named columns
  in their order.  \<open>df[c]\<close> reads a column and raises \<open>KeyError\<close> when there is none;
  \<open>df[c] = s\<close> replaces the column of that name where it stands, or appends a new one.
\<close>

record dataframe =
  index :: "nat list"
  columns :: "(string \<times> cell list) list"

definition getitem :: "dataframe \<Rightarrow> string \<Rightarrow> error + cell list" where
  "getitem df c = (case map_of (columns df) c of None \<Rightarrow> Inl (KeyError c) | Some s \<Rightarrow> Inr s)"

definition setitem :: "dataframe \<Rightarrow> string \<Rightarrow> cell list \<Rightarrow> dataframe" where
  "setitem df c s = df\<lparr>columns := AList.update c s (columns df)\<rparr>"

text \<open>Every column has one cell per row label, and column names are not repeated
  (\<open>read_csv\<close> renames duplicates).\<close>

definition wf_df :: "dataframe \<Rightarrow> bool" where
  "wf_df df =
     (distinct (map fst (columns df)) \<and>
      list_all (\<lambda>(c, s). length s = length (index df)) (columns df))"

text \<open>The rows of a table: row \<open>i\<close> pairs every column name with the column's cell \<open>i\<close>.\<close>

definition row :: "dataframe \<Rightarrow> nat \<Rightarrow> (string \<times> cell) list" where
  "row df i = map (\<lambda>(c, s). (c, s ! i)) (columns df)"

definition rows :: "dataframe \<Rightarrow> (string \<times> cell) list list" where
  "rows df = map (row df) [0..<length (index df)]"


section \<open>The Enrichment Transform: \<open>load_data\<close>\<close>

text \<open>The table read from the CSV file is the argument; the statements of
  \<open>load_data\<close> follow in their order.\<close>

definition load_data :: "dataframe \<Rightarrow> error + dataframe" where
  "load_data df0 =
     and_then (getitem df0 ''experience_level'') (\<lambda>s1.
     let df1 = setitem df0 ''experience_level'' (series_map exp_level_map s1) in
     and_then (getitem df1 ''employment_type'') (\<lambda>s2.
     let df2 = setitem df1 ''employment_type'' (series_map emp_type_map s2) in
     and_then (getitem df2 ''company_size'') (\<lambda>s3.
     let df3 = setitem df2 ''company_size'' (series_map company_size_map s3) in
     and_then (getitem df3 ''remote_ratio'') (\<lambda>s4.
     and_then (cut s4 remote_bins remote_labels) (\<lambda>r.
     let df4 = setitem df3 ''remote_work_type'' r in
     and_then (getitem df4 ''company_location'') (\<lambda>s5.
     let df5 = setitem df4 ''region'' (map get_region s5) in
     and_then (getitem df5 ''job_title'') (\<lambda>s6.
     and_then (series_apply categorize_job s6) (\<lambda>j.
     Inr (setitem df5 ''job_category'' j)))))))))"


section \<open>The Filter Engine: \<open>filtered_df\<close>\<close>

text \<open>The six sidebar selections are lists of values.\<close>

record selection =
  selected_years :: "cell list"
  selected_exp_levels :: "cell list"
  selected_job_cats :: "cell list"
  selected_regions :: "cell list"
  selected_company_sizes :: "cell list"
  selected_remote_types :: "cell list"

text \<open>\<open>Series.isin\<close>: a missing value is found when the values hold a missing value.\<close>

definition isin :: "cell list \<Rightarrow> cell list \<Rightarrow> bool list" where
  "isin s vals = map (\<lambda>c. c \<in> set vals) s"

definition series_and :: "bool list \<Rightarrow> bool list \<Rightarrow> bool list" where
  "series_and a b = map (\<lambda>(x, y). x \<and> y) (zip a b)"

text \<open>\<open>df[mask]\<close>: the rows whose mask entry is true, in every column and in the index.\<close>

definition select_mask :: "'a list \<Rightarrow> bool list \<Rightarrow> 'a list" where
  "select_mask xs bs = map fst (filter snd (zip xs bs))"

definition getitem_mask :: "dataframe \<Rightarrow> bool list \<Rightarrow> error + dataframe" where
  "getitem_mask df bs =
     (if length bs \<noteq> length (index df) then Inl IndexingError
      else Inr \<lparr>index = select_mask (index df) bs,
                columns = map (\<lambda>(c, s). (c, select_mask s bs)) (columns df)\<rparr>)"

definition filtered_df :: "dataframe \<Rightarrow> selection \<Rightarrow> error + dataframe" where
  "filtered_df df sel =
     and_then (getitem df ''work_year'') (\<lambda>y.
     and_then (getitem df ''experience_level'') (\<lambda>e.
     and_then (getitem df ''job_category'') (\<lambda>j.
     and_then (getitem df ''region'') (\<lambda>g.
     and_then (getitem df ''company_size'') (\<lambda>z.
     and_then (getitem df ''remote_work_type'') (\<lambda>t.
     getitem_mask df
       (series_and (series_and (series_and (series_and (series_and
          (isin y (selected_years sel))
          (isin e (selected_exp_levels sel)))
          (isin j (selected_job_cats sel)))
          (isin g (selected_regions sel)))
          (isin z (selected_company_sizes sel)))
          (isin t (selected_remote_types sel)))))))))"


section \<open>Notions the properties are stated with\<close>

subsection \<open>Reading a table\<close>

text \<open>The cell of column \<open>c\<close> in row position \<open>i\<close>, when there is one.\<close>

definition cell_at :: "dataframe \<Rightarrow> string \<Rightarrow> nat \<Rightarrow> cell option" where
  "cell_at df c i =
     (case map_of (columns df) c of
        None \<Rightarrow> None
      | Some s \<Rightarrow> if i < length s then Some (s ! i) else None)"

definition column_names :: "dataframe \<Rightarrow> string list" where
  "column_names df = map fst (columns df)"

definition has_columns :: "dataframe \<Rightarrow> string list \<Rightarrow> bool" where
  "has_columns df cs = list_all (\<lambda>c. c \<in> set (column_names df)) cs"

definition is_str :: "cell \<Rightarrow> bool" where
  "is_str c = (case c of Str _ \<Rightarrow> True | _ \<Rightarrow> False)"

definition column_all :: "dataframe \<Rightarrow> string \<Rightarrow> (cell \<Rightarrow> bool) \<Rightarrow> bool" where
  "column_all df c P = (case map_of (columns df) c of None \<Rightarrow> False | Some s \<Rightarrow> list_all P s)"

text \<open>
  The input of the Enrichment Transform: a table with the six columns \<open>load_data\<close>
  reads, whose \<open>job_title\<close> cells are strings and whose \<open>remote_ratio\<close> cells are
  numbers or missing.  The coded columns are not constrained.
\<close>

definition raw_table :: "dataframe \<Rightarrow> bool" where
  "raw_table df =
     (wf_df df \<and>
      has_columns df [''experience_level'', ''employment_type'', ''company_size'',
                      ''remote_ratio'', ''company_location'', ''job_title''] \<and>
      column_all df ''remote_ratio'' (\<lambda>c. \<not> is_str c) \<and>
      column_all df ''job_title'' is_str)"

text \<open>The input of the Filter Engine: a table with the six filter dimensions.\<close>

definition filter_dimensions :: "string list" where
  "filter_dimensions = [''work_year'', ''experience_level'', ''job_category'',
                        ''region'', ''company_size'', ''remote_work_type'']"

definition enriched_table :: "dataframe \<Rightarrow> bool" where
  "enriched_table df = (wf_df df \<and> has_columns df filter_dimensions)"

subsection \<open>The job-category rules as an ordered rule list\<close>

definition job_rules :: "(string list \<times> string) list" where
  "job_rules =
     [([''data scientist''], ''Data Scientist''),
      ([''data engineer''], ''Data Engineer''),
      ([''data analyst''], ''Data Analyst''),
      ([''machine learning'', ''ml''], ''Machine Learning Engineer''),
      ([''research'', ''scientist''], ''Research Scientist''),
      ([''analytics''], ''Analytics Engineer''),
      ([''architect''], ''Data Architect''),
      ([''manager'', ''lead'', ''director'', ''head''], ''Management'')]"

text \<open>First match wins: the label of the first rule one of whose keywords is a
  substring of the title; \<open>Other\<close> when no rule matches.\<close>

fun first_match :: "(string list \<times> string) list \<Rightarrow> string \<Rightarrow> string" where
  "first_match [] t = ''Other''"
| "first_match ((keywords, label) # rules) t =
     (if list_ex (\<lambda>k. sublist k t) keywords then label else first_match rules t)"

definition job_category :: "string \<Rightarrow> string" where
  "job_category title = first_match job_rules (lower title)"

subsection \<open>The region buckets\<close>

definition region_sets :: "(string \<times> string list) list" where
  "region_sets =
     [(''Americas'', americas), (''Europe'', europe), (''Asia'', asia),
      (''Oceania'', oceania), (''Africa'', africa)]"

definition region_labels :: "string list" where
  "region_labels = map fst region_sets @ [''Other'']"

text \<open>A code lies in a named bucket when the bucket's set holds it, and in the
  bucket \<open>Other\<close> when no named set holds it.\<close>

definition in_bucket :: "string \<Rightarrow> string \<Rightarrow> bool" where
  "in_bucket label code =
     (case map_of region_sets label of
        Some codes \<Rightarrow> code \<in> set codes
      | None \<Rightarrow> label = ''Other'' \<and> \<not> list_ex (\<lambda>(n, codes). code \<in> set codes) region_sets)"

subsection \<open>The rows a selection allows\<close>

definition allowed :: "(string \<times> cell) list \<Rightarrow> string \<Rightarrow> cell list \<Rightarrow> bool" where
  "allowed r c vals = (case map_of r c of None \<Rightarrow> False | Some v \<Rightarrow> v \<in> set vals)"

definition row_allowed :: "selection \<Rightarrow> (string \<times> cell) list \<Rightarrow> bool" where
  "row_allowed sel r =
     (allowed r ''work_year'' (selected_years sel) \<and>
      allowed r ''experience_level'' (selected_exp_levels sel) \<and>
      allowed r ''job_category'' (selected_job_cats sel) \<and>
      allowed r ''region'' (selected_regions sel) \<and>
      allowed r ''company_size'' (selected_company_sizes sel) \<and>
      allowed r ''remote_work_type'' (selected_remote_types sel))"

subsection \<open>A sample table\<close>

definition sample_raw :: dataframe where
  "sample_raw =
     \<lparr>index = [0, 1, 2, 3, 4],
      columns =
        [(''work_year'', [Num 2020, Num 2021, Num 2022, Num 2022, Num 2023]),
         (''experience_level'', [Str ''EN'', Str ''SE'', Str ''XX'', Str ''MI'', Str ''EX'']),
         (''employment_type'', [Str ''FT'', Str ''PT'', Str ''ZZ'', Str ''CT'', Str ''FL'']),
         (''job_title'',
            [Str ''Machine Learning Research Scientist'', Str ''Senior Data Analyst'',
             Str ''Html Developer'', Str ''Head of Data'', Str ''Data Engineer'']),
         (''salary_in_usd'', [Num 90000, Num 120000, Num 70000, Num 150000, Num 110000]),
         (''remote_ratio'', [Num 0, Num 50, Num 100, Num (-1), Num (-5)]),
         (''company_location'', [Str ''US'', Str ''DE'', Str ''ZZ'', Str ''BR'', Str ''IN'']),
         (''company_size'', [Str ''S'', Str ''M'', Str ''XL'', Str ''L'', Str ''M''])]\<rparr>"

definition sample_selection :: selection where
  "sample_selection =
     \<lparr>selected_years = [Num 2020, Num 2022, Num 2023],
      selected_exp_levels = [Str ''Entry-level'', Str ''Mid-level'', NaN],
      selected_job_cats = [Str ''Machine Learning Engineer'', Str ''Management''],
      selected_regions = [Str ''Americas'', Str ''Other''],
      selected_company_sizes = [Str ''Small'', Str ''Large'', NaN],
      selected_remote_types = [Str ''On-site'', Str ''Full-remote'', NaN]\<rparr>"


text \<open>What \<open>load_data\<close> makes of the sample.\<close>

definition sample_enriched :: dataframe where
  "sample_enriched =
     \<lparr>index = [0, 1, 2, 3, 4],
      columns =
        [(''work_year'', [Num 2020, Num 2021, Num 2022, Num 2022, Num 2023]),
         (''experience_level'',
            [Str ''Entry-level'', Str ''Senior-level'', NaN, Str ''Mid-level'',
             Str ''Executive-level'']),
         (''employment_type'',
            [Str ''Full-time'', Str ''Part-time'', NaN, Str ''Contract'', Str ''Freelance'']),
         (''job_title'',
            [Str ''Machine Learning Research Scientist'', Str ''Senior Data Analyst'',
             Str ''Html Developer'', Str ''Head of Data'', Str ''Data Engineer'']),
         (''salary_in_usd'', [Num 90000, Num 120000, Num 70000, Num 150000, Num 110000]),
         (''remote_ratio'', [Num 0, Num 50, Num 100, Num (-1), Num (-5)]),
         (''company_location'', [Str ''US'', Str ''DE'', Str ''ZZ'', Str ''BR'', Str ''IN'']),
         (''company_size'', [Str ''Small'', Str ''Medium'', NaN, Str ''Large'', Str ''Medium'']),
         (''remote_work_type'', [Str ''On-site'', Str ''Hybrid'', Str ''Full-remote'', NaN, NaN]),
         (''region'',
            [Str ''Americas'', Str ''Europe'', Str ''Other'', Str ''Americas'', Str ''Asia'']),
         (''job_category'',
            [Str ''Machine Learning Engineer'', Str ''Data Analyst'',
             Str ''Machine Learning Engineer'', Str ''Management'', Str ''Data Engineer''])]\<rparr>"

text \<open>What the Filter Engine keeps of it under the sample selection.\<close>

definition sample_filtered :: dataframe where
  "sample_filtered =
     \<lparr>index = [0, 2, 3],
      columns =
        [(''work_year'', [Num 2020, Num 2022, Num 2022]),
         (''experience_level'', [Str ''Entry-level'', NaN, Str ''Mid-level'']),
         (''employment_type'', [Str ''Full-time'', NaN, Str ''Contract'']),
         (''job_title'',
            [Str ''Machine Learning Research Scientist'', Str ''Html Developer'',
             Str ''Head of Data'']),
         (''salary_in_usd'', [Num 90000, Num 70000, Num 150000]),
         (''remote_ratio'', [Num 0, Num 100, Num (-1)]),
         (''company_location'', [Str ''US'', Str ''ZZ'', Str ''BR'']),
         (''company_size'', [Str ''Small'', NaN, Str ''Large'']),
         (''remote_work_type'', [Str ''On-site'', Str ''Full-remote'', NaN]),
         (''region'', [Str ''Americas'', Str ''Other'', Str ''Americas'']),
         (''job_category'',
            [Str ''Machine Learning Engineer'', Str ''Machine Learning Engineer'',
             Str ''Management''])]\<rparr>"


section \<open>Basic facts\<close>

subsection \<open>Strings, exceptions and columns\<close>

lemma starts_with_prefix: "starts_with a s = prefix a s"
  by (induction a s rule: starts_with.induct) simp_all

lemma contains_sublist: "contains sub s = sublist sub s"
  by (induction s) (simp_all add: starts_with_prefix sublist_Cons_right)

lemma and_then_Inr_iff: "and_then r f = Inr y \<longleftrightarrow> (\<exists>x. r = Inr x \<and> f x = Inr y)"
  by (cases r) (simp_all add: and_then_def)

lemma and_then_Inr [simp]: "and_then (Inr x) f = f x"
  by (simp add: and_then_def)

lemma series_apply_Inr_iff:
  "series_apply f s = Inr t \<longleftrightarrow> list_all2 (\<lambda>c y. f c = Inr y) s t"
proof (induction s arbitrary: t)
  case Nil
  show ?case by auto
next
  case (Cons c cs)
  show ?case
    by (cases t) (auto simp: and_then_Inr_iff Cons.IH)
qed

lemma series_apply_total:
  "(\<And>c. c \<in> set s \<Longrightarrow> \<exists>y. f c = Inr y) \<Longrightarrow> \<exists>t. series_apply f s = Inr t"
proof (induction s)
  case Nil
  show ?case by simp
next
  case (Cons c cs)
  from Cons.prems obtain y where y: "f c = Inr y" by auto
  from Cons obtain t where t: "series_apply f cs = Inr t" by auto
  show ?case by (simp add: y t)
qed

lemma getitem_Inr_iff: "getitem df c = Inr s \<longleftrightarrow> map_of (columns df) c = Some s"
  by (simp add: getitem_def split: option.splits)

lemma getitem_setitem:
  "getitem (setitem df c s) c' = (if c' = c then Inr s else getitem df c')"
  by (simp add: getitem_def setitem_def update_conv')

lemma index_setitem [simp]: "index (setitem df c s) = index df"
  by (simp add: setitem_def)

lemma column_names_setitem:
  "set (column_names (setitem df c s)) = insert c (set (column_names df))"
  by (simp add: column_names_def setitem_def dom_update)

lemma set_update_subset: "set (AList.update k v al) \<subseteq> insert (k, v) (set al)"
  by (induction al) auto

lemma wf_df_setitem:
  assumes "wf_df df" and "length s = length (index df)"
  shows "wf_df (setitem df c s)"
proof -
  have "\<forall>(c', s') \<in> set (AList.update c s (columns df)). length s' = length (index df)"
    using assms set_update_subset [of c s "columns df"]
    by (auto simp: wf_df_def list_all_iff)
  with assms show ?thesis
    by (simp add: wf_df_def setitem_def distinct_update list_all_iff)
qed

lemma wf_df_length:
  "wf_df df \<Longrightarrow> map_of (columns df) c = Some s \<Longrightarrow> length s = length (index df)"
  by (auto simp: wf_df_def list_all_iff dest: map_of_SomeD)

lemma has_columns_Cons [simp]:
  "has_columns df (c # cs) \<longleftrightarrow> c \<in> set (column_names df) \<and> has_columns df cs"
  by (simp add: has_columns_def)

lemma column_present:
  "c \<in> set (column_names df) \<longleftrightarrow> (\<exists>s. getitem df c = Inr s)"
proof -
  have "c \<in> set (column_names df) \<longleftrightarrow> map_of (columns df) c \<noteq> None"
    by (simp add: column_names_def map_of_eq_None_iff)
  then show ?thesis
    by (auto simp: getitem_Inr_iff)
qed

lemma load_data_Inr_iff:
  "load_data df = Inr df' \<longleftrightarrow>
     (\<exists>s1 s2 s3 s4 r s5 s6 j.
        getitem df ''experience_level'' = Inr s1 \<and>
        getitem df ''employment_type'' = Inr s2 \<and>
        getitem df ''company_size'' = Inr s3 \<and>
        getitem df ''remote_ratio'' = Inr s4 \<and>
        cut s4 remote_bins remote_labels = Inr r \<and>
        getitem df ''company_location'' = Inr s5 \<and>
        getitem df ''job_title'' = Inr s6 \<and>
        series_apply categorize_job s6 = Inr j \<and>
        df' = setitem (setitem (setitem (setitem (setitem (setitem df
                ''experience_level'' (series_map exp_level_map s1))
                ''employment_type'' (series_map emp_type_map s2))
                ''company_size'' (series_map company_size_map s3))
                ''remote_work_type'' r)
                ''region'' (map get_region s5))
                ''job_category'' j)"
  unfolding load_data_def and_then_Inr_iff Let_def getitem_setitem
  by (simp add: eq_commute [of df'])


section \<open>Job categories\<close>

lemma categorize_job_Str: "categorize_job (Str title) = Inr (Str (job_category title))"
  by (simp add: categorize_job_def job_category_def job_rules_def contains_sublist Let_def)

text \<open>
  C1.  For every job title, \<open>categorize_job\<close> returns what the ordered rule list
  gives on the lower-cased title, the first matching rule winning and \<open>Other\<close> standing
  for no match; \<open>Machine Learning Research Scientist\<close> is a Machine Learning Engineer
  and \<open>Senior Data Analyst\<close> a Data Analyst.
\<close>

theorem categorize_job_first_match:
  "categorize_job (Str title) = Inr (Str (job_category title))
   \<and> categorize_job (Str ''Machine Learning Research Scientist'')
       = Inr (Str ''Machine Learning Engineer'')
   \<and> categorize_job (Str ''Senior Data Analyst'') = Inr (Str ''Data Analyst'')"
proof (intro conjI)
  show "categorize_job (Str title) = Inr (Str (job_category title))"
    by (rule categorize_job_Str)
  show "categorize_job (Str ''Machine Learning Research Scientist'')
       = Inr (Str ''Machine Learning Engineer'')"
    by code_simp
  show "categorize_job (Str ''Senior Data Analyst'') = Inr (Str ''Data Analyst'')"
    by code_simp
qed

text \<open>
  C10.  A title whose lower-casing contains \<open>ml\<close> anywhere, and none of
  \<open>data scientist\<close>, \<open>data engineer\<close>, \<open>data analyst\<close>, is a Machine Learning
  Engineer: the test is a plain substring test, with no word boundary.
\<close>

theorem ml_substring_rule:
  assumes "sublist ''ml'' (lower title)"
    and "\<not> sublist ''data scientist'' (lower title)"
    and "\<not> sublist ''data engineer'' (lower title)"
    and "\<not> sublist ''data analyst'' (lower title)"
  shows "categorize_job (Str title) = Inr (Str ''Machine Learning Engineer'')"
  using assms by (simp add: categorize_job_def contains_sublist Let_def)

theorem ml_substring_rule_witness:
  "sublist ''ml'' (lower ''Html Developer'')
   \<and> categorize_job (Str ''Html Developer'') = Inr (Str ''Machine Learning Engineer'')"
proof -
  have 1: "sublist ''ml'' (lower ''Html Developer'')" by code_simp
  have 2: "\<not> sublist ''data scientist'' (lower ''Html Developer'')" by code_simp
  have 3: "\<not> sublist ''data engineer'' (lower ''Html Developer'')" by code_simp
  have 4: "\<not> sublist ''data analyst'' (lower ''Html Developer'')" by code_simp
  from ml_substring_rule [OF 1 2 3 4] 1 show ?thesis by simp
qed

section \<open>The sample table\<close>

lemma load_data_sample: "load_data sample_raw = Inr sample_enriched"
  by code_simp

lemma filtered_df_sample: "filtered_df sample_enriched sample_selection = Inr sample_filtered"
  by code_simp

lemma raw_table_sample: "raw_table sample_raw"
  by code_simp

lemma enriched_table_sample: "enriched_table sample_enriched"
  by code_simp

section \<open>Remote work type\<close>

text \<open>The call of \<open>pd.cut\<close> in \<open>load_data\<close>, on a number: the three bins
  \<open>(-1, 0]\<close>, \<open>(0, 50]\<close>, \<open>(50, 100]\<close>, and missing outside them.\<close>

lemma cut_cell_remote:
  "cut_cell remote_bins remote_labels (Num r) =
     Inr (if r \<le> -1 then NaN
          else if r \<le> 0 then Str ''On-site''
          else if r \<le> 50 then Str ''Hybrid''
          else if r \<le> 100 then Str ''Full-remote''
          else NaN)"
  by (simp add: cut_cell_def remote_bins_def remote_labels_def searchsorted_left_def)

lemma cell_at_Some_iff:
  "cell_at df c i = Some v \<longleftrightarrow> (\<exists>s. getitem df c = Inr s \<and> i < length s \<and> s ! i = v)"
  by (auto simp: cell_at_def getitem_Inr_iff split: option.splits)

lemma cut_Inr:
  assumes "cut s remote_bins remote_labels = Inr r"
  shows "length r = length s"
    and "i < length s \<Longrightarrow> cut_cell remote_bins remote_labels (s ! i) = Inr (r ! i)"
  using assms
  by (auto simp: cut_def series_apply_Inr_iff list_all2_conv_all_nth split: if_splits)

lemma load_data_remote_work_type:
  assumes "load_data df = Inr df'" and "cell_at df ''remote_ratio'' i = Some c"
  shows "\<exists>t. cut_cell remote_bins remote_labels c = Inr t
            \<and> cell_at df' ''remote_work_type'' i = Some t"
proof -
  from assms(1) obtain s4 r where
    s4: "getitem df ''remote_ratio'' = Inr s4" and
    r: "cut s4 remote_bins remote_labels = Inr r" and
    g: "getitem df' ''remote_work_type'' = Inr r"
    by (auto simp: load_data_Inr_iff getitem_setitem)
  from assms(2) s4 have i: "i < length s4" and c: "s4 ! i = c"
    by (auto simp: cell_at_Some_iff)
  from cut_Inr [OF r] i c g show ?thesis
    by (auto simp: cell_at_Some_iff)
qed

text \<open>
  C2.  In the table \<open>load_data\<close> returns, a row whose \<open>remote_ratio\<close> is \<open>r\<close> has
  \<open>remote_work_type\<close> On-site when \<open>r = 0\<close>, Hybrid when \<open>0 < r \<le> 50\<close> and
  Full-remote when \<open>50 < r \<le> 100\<close>.
\<close>

theorem remote_work_type_buckets:
  assumes "load_data df = Inr df'" and "cell_at df ''remote_ratio'' i = Some (Num r)"
  shows "(r = 0 \<longrightarrow> cell_at df' ''remote_work_type'' i = Some (Str ''On-site''))
       \<and> (0 < r \<and> r \<le> 50 \<longrightarrow> cell_at df' ''remote_work_type'' i = Some (Str ''Hybrid''))
       \<and> (50 < r \<and> r \<le> 100 \<longrightarrow>
            cell_at df' ''remote_work_type'' i = Some (Str ''Full-remote''))"
  using load_data_remote_work_type [OF assms] by (auto simp: cut_cell_remote)

theorem remote_work_type_buckets_witness:
  "cell_at sample_enriched ''remote_work_type'' 0 = Some (Str ''On-site'')
   \<and> cell_at sample_enriched ''remote_work_type'' 1 = Some (Str ''Hybrid'')
   \<and> cell_at sample_enriched ''remote_work_type'' 2 = Some (Str ''Full-remote'')"
proof -
  have 0: "cell_at sample_raw ''remote_ratio'' 0 = Some (Num 0)" by code_simp
  have 1: "cell_at sample_raw ''remote_ratio'' 1 = Some (Num 50)" by code_simp
  have 2: "cell_at sample_raw ''remote_ratio'' 2 = Some (Num 100)" by code_simp
  from remote_work_type_buckets [OF load_data_sample 0]
    remote_work_type_buckets [OF load_data_sample 1]
    remote_work_type_buckets [OF load_data_sample 2]
  show ?thesis by simp
qed

text \<open>
  C4, as stated, fails: the rows of the sample with \<open>remote_ratio\<close> \<open>-1\<close> and \<open>-5\<close>
  get a missing \<open>remote_work_type\<close>, not On-site.
\<close>

theorem remote_work_type_negative_counterexample:
  "load_data sample_raw = Inr sample_enriched
   \<and> cell_at sample_raw ''remote_ratio'' 3 = Some (Num (- 1)) \<and> (- 1 :: int) \<le> 0
   \<and> cell_at sample_enriched ''remote_work_type'' 3 = Some NaN
   \<and> cell_at sample_enriched ''remote_work_type'' 3 \<noteq> Some (Str ''On-site'')
   \<and> cell_at sample_raw ''remote_ratio'' 4 = Some (Num (- 5)) \<and> (- 5 :: int) \<le> 0
   \<and> cell_at sample_enriched ''remote_work_type'' 4 = Some NaN"
  by (intro conjI; code_simp)

text \<open>
  C4, amended.  The first bin is \<open>(-1, 0]\<close>: a \<open>remote_ratio\<close> \<open>r\<close> with
  \<open>-1 < r \<le> 0\<close> gives On-site, and \<open>r \<le> -1\<close> gives a missing value; the lower
  edge \<open>-1\<close> is exclusive, not minus infinity.
\<close>

theorem remote_work_type_first_bin:
  assumes "load_data df = Inr df'" and "cell_at df ''remote_ratio'' i = Some (Num r)"
  shows "(- 1 < r \<and> r \<le> 0 \<longrightarrow> cell_at df' ''remote_work_type'' i = Some (Str ''On-site''))
       \<and> (r \<le> - 1 \<longrightarrow> cell_at df' ''remote_work_type'' i = Some NaN)"
  using load_data_remote_work_type [OF assms] by (auto simp: cut_cell_remote)

theorem remote_work_type_first_bin_witness:
  "cell_at sample_enriched ''remote_work_type'' 0 = Some (Str ''On-site'')
   \<and> cell_at sample_enriched ''remote_work_type'' 3 = Some NaN"
proof -
  have 0: "cell_at sample_raw ''remote_ratio'' 0 = Some (Num 0)" by code_simp
  have 3: "cell_at sample_raw ''remote_ratio'' 3 = Some (Num (- 1))" by code_simp
  from remote_work_type_first_bin [OF load_data_sample 0]
    remote_work_type_first_bin [OF load_data_sample 3]
  show ?thesis by simp
qed

section \<open>Regions\<close>

lemma get_region_Str:
  "get_region (Str code) =
     Str (if code \<in> set americas then ''Americas''
          else if code \<in> set europe then ''Europe''
          else if code \<in> set asia then ''Asia''
          else if code \<in> set oceania then ''Oceania''
          else if code \<in> set africa then ''Africa''
          else ''Other'')"
  by (simp add: get_region_def in_list_def)

lemma region_sets_disjoint:
  "set americas \<inter> set europe = {}" "set americas \<inter> set asia = {}"
  "set americas \<inter> set oceania = {}" "set americas \<inter> set africa = {}"
  "set europe \<inter> set asia = {}" "set europe \<inter> set oceania = {}"
  "set europe \<inter> set africa = {}" "set asia \<inter> set oceania = {}"
  "set asia \<inter> set africa = {}" "set oceania \<inter> set africa = {}"
  by (simp_all add: americas_def europe_def asia_def oceania_def africa_def)

lemma get_region_americas: "code \<in> set americas \<Longrightarrow> get_region (Str code) = Str ''Americas''"
  by (simp add: get_region_Str)

lemma get_region_europe: "code \<in> set europe \<Longrightarrow> get_region (Str code) = Str ''Europe''"
  using region_sets_disjoint(1) by (auto simp only: get_region_Str if_True if_False split: if_splits)


lemma get_region_asia: "code \<in> set asia \<Longrightarrow> get_region (Str code) = Str ''Asia''"
  using region_sets_disjoint(2,5)
  by (auto simp only: get_region_Str if_True if_False split: if_splits)

lemma get_region_oceania: "code \<in> set oceania \<Longrightarrow> get_region (Str code) = Str ''Oceania''"
  using region_sets_disjoint(3,6,8)
  by (auto simp only: get_region_Str if_True if_False split: if_splits)

lemma get_region_africa: "code \<in> set africa \<Longrightarrow> get_region (Str code) = Str ''Africa''"
  using region_sets_disjoint(4,7,9,10)
  by (auto simp only: get_region_Str if_True if_False split: if_splits)

lemma get_region_none:
  "code \<notin> set americas \<Longrightarrow> code \<notin> set europe \<Longrightarrow> code \<notin> set asia \<Longrightarrow>
   code \<notin> set oceania \<Longrightarrow> code \<notin> set africa \<Longrightarrow> get_region (Str code) = Str ''Other''"
  by (simp only: get_region_Str if_False)

lemma region_sets_mem:
  "(name, codes) \<in> set region_sets \<longleftrightarrow>
     name = ''Americas'' \<and> codes = americas \<or> name = ''Europe'' \<and> codes = europe \<or>
     name = ''Asia'' \<and> codes = asia \<or> name = ''Oceania'' \<and> codes = oceania \<or>
     name = ''Africa'' \<and> codes = africa"
  by (simp add: region_sets_def)

lemma get_region_named:
  assumes "(name, codes) \<in> set region_sets" and "code \<in> set codes"
  shows "get_region (Str code) = Str name"
proof -
  from assms(1) have
    "name = ''Americas'' \<and> codes = americas \<or> name = ''Europe'' \<and> codes = europe \<or>
     name = ''Asia'' \<and> codes = asia \<or> name = ''Oceania'' \<and> codes = oceania \<or>
     name = ''Africa'' \<and> codes = africa"
    by (simp only: region_sets_mem)
  then show ?thesis
  proof (elim disjE conjE)
    assume "name = ''Americas''" "codes = americas"
    with assms(2) show ?thesis by (simp only: get_region_americas)
  next
    assume "name = ''Europe''" "codes = europe"
    with assms(2) show ?thesis by (simp only: get_region_europe)
  next
    assume "name = ''Asia''" "codes = asia"
    with assms(2) show ?thesis by (simp only: get_region_asia)
  next
    assume "name = ''Oceania''" "codes = oceania"
    with assms(2) show ?thesis by (simp only: get_region_oceania)
  next
    assume "name = ''Africa''" "codes = africa"
    with assms(2) show ?thesis by (simp only: get_region_africa)
  qed
qed

lemma get_region_other:
  "(\<forall>(name, codes) \<in> set region_sets. code \<notin> set codes) \<Longrightarrow> get_region (Str code) = Str ''Other''"
  by (simp add: region_sets_def get_region_Str)


text \<open>
  C6.  \<open>get_region\<close> looks the code up, by equality, in the five sets: a code a
  named set holds gets that set's name, a code no set holds gets \<open>Other\<close>; every
  code of the Americas set, \<open>US\<close> and \<open>BR\<close> among them, is in the Americas, and
  \<open>ZZ\<close> is Other.
\<close>

theorem get_region_lookup:
  "((name, codes) \<in> set region_sets \<and> code \<in> set codes \<longrightarrow> get_region (Str code) = Str name)
   \<and> ((\<forall>(n, cs) \<in> set region_sets. code \<notin> set cs) \<longrightarrow> get_region (Str code) = Str ''Other'')
   \<and> (code \<in> set americas \<longrightarrow> get_region (Str code) = Str ''Americas'')
   \<and> get_region (Str ''US'') = Str ''Americas''
   \<and> get_region (Str ''BR'') = Str ''Americas''
   \<and> get_region (Str ''ZZ'') = Str ''Other''"
proof (intro conjI impI)
  assume "(name, codes) \<in> set region_sets \<and> code \<in> set codes"
  then have "(name, codes) \<in> set region_sets" and "code \<in> set codes"
    by (rule conjunct1, rule conjunct2)
  then show "get_region (Str code) = Str name"
    by (rule get_region_named)
next
  assume "\<forall>(n, cs) \<in> set region_sets. code \<notin> set cs"
  then show "get_region (Str code) = Str ''Other''"
    by (rule get_region_other)
next
  assume "code \<in> set americas"
  then show "get_region (Str code) = Str ''Americas''"
    by (rule get_region_americas)
next
  show "get_region (Str ''US'') = Str ''Americas''" by code_simp
  show "get_region (Str ''BR'') = Str ''Americas''" by code_simp
  show "get_region (Str ''ZZ'') = Str ''Other''" by code_simp
qed

theorem get_region_lookup_witness:
  "get_region (Str ''DE'') = Str ''Europe'' \<and> get_region (Str ''XX'') = Str ''Other''
   \<and> get_region (Str ''CO'') = Str ''Americas''"
proof -
  have 1: "(''Europe'', europe) \<in> set region_sets \<and> ''DE'' \<in> set europe" by code_simp
  have 2: "\<forall>(n, cs) \<in> set region_sets. ''XX'' \<notin> set cs" by code_simp
  have 3: "''CO'' \<in> set americas" by code_simp
  have "get_region (Str ''DE'') = Str ''Europe''"
    using get_region_lookup [of "''Europe''" europe "''DE''"] 1 by (simp only:)
  moreover have "get_region (Str ''XX'') = Str ''Other''"
    using get_region_lookup [of "''Europe''" europe "''XX''"] 2 by (simp only:)
  moreover have "get_region (Str ''CO'') = Str ''Americas''"
    using get_region_lookup [of "''Europe''" europe "''CO''"] 3 by (simp only:)
  ultimately show ?thesis by (simp only: simp_thms)
qed

lemma region_sets_names:
  "map_of region_sets label = Some codes \<longleftrightarrow> (label, codes) \<in> set region_sets"
  by (rule map_of_eq_Some_iff) (simp add: region_sets_def)

lemma get_region_cases:
  obtains "code \<in> set americas" "get_region (Str code) = Str ''Americas''"
  | "code \<in> set europe" "get_region (Str code) = Str ''Europe''"
  | "code \<in> set asia" "get_region (Str code) = Str ''Asia''"
  | "code \<in> set oceania" "get_region (Str code) = Str ''Oceania''"
  | "code \<in> set africa" "get_region (Str code) = Str ''Africa''"
  | "\<forall>(n, cs) \<in> set region_sets. code \<notin> set cs" "get_region (Str code) = Str ''Other''"
proof (cases "\<forall>(n, cs) \<in> set region_sets. code \<notin> set cs")
  case True
  then show ?thesis using that(6) get_region_other by (simp only:)
next
  case False
  then have "code \<in> set americas \<or> code \<in> set europe \<or> code \<in> set asia
      \<or> code \<in> set oceania \<or> code \<in> set africa"
    by (simp add: region_sets_def)
  then show ?thesis
  proof (elim disjE)
    assume "code \<in> set americas" then show ?thesis using that(1) get_region_americas by (simp only:)
  next
    assume "code \<in> set europe" then show ?thesis using that(2) get_region_europe by (simp only:)
  next
    assume "code \<in> set asia" then show ?thesis using that(3) get_region_asia by (simp only:)
  next
    assume "code \<in> set oceania" then show ?thesis using that(4) get_region_oceania by (simp only:)
  next
    assume "code \<in> set africa" then show ?thesis using that(5) get_region_africa by (simp only:)
  qed
qed


lemma region_labels_mem:
  "''Americas'' \<in> set region_labels" "''Europe'' \<in> set region_labels"
  "''Asia'' \<in> set region_labels" "''Oceania'' \<in> set region_labels"
  "''Africa'' \<in> set region_labels" "''Other'' \<in> set region_labels"
  by (simp_all add: region_labels_def region_sets_def)

lemma get_region_label: "\<exists>l. l \<in> set region_labels \<and> get_region (Str code) = Str l"
  by (rule get_region_cases [of code]) (simp_all add: region_labels_mem)

lemma in_bucket_get_region:
  "in_bucket label code \<longleftrightarrow> get_region (Str code) = Str label"
proof (cases "map_of region_sets label")
  case None
  have other: "''Other'' \<notin> fst ` set region_sets"
    by (simp add: region_sets_def)
  have notin: "label \<notin> fst ` set region_sets"
    using None by (simp add: map_of_eq_None_iff)
  have b: "in_bucket label code \<longleftrightarrow>
      label = ''Other'' \<and> (\<forall>(n, cs) \<in> set region_sets. code \<notin> set cs)"
    using None by (simp add: in_bucket_def list_ex_iff case_prod_beta)
  show ?thesis
  proof
    assume "in_bucket label code"
    with b have "label = ''Other''" and "\<forall>(n, cs) \<in> set region_sets. code \<notin> set cs"
      by simp_all
    then show "get_region (Str code) = Str label"
      using get_region_other by (simp only:)
  next
    assume g: "get_region (Str code) = Str label"
    have "\<forall>(n, cs) \<in> set region_sets. code \<notin> set cs"
    proof (rule ccontr)
      assume "\<not> (\<forall>(n, cs) \<in> set region_sets. code \<notin> set cs)"
      then obtain n cs where m: "(n, cs) \<in> set region_sets" and c: "code \<in> set cs"
        by auto
      from get_region_named [OF m c] g have "n = label" by (simp only: cell.inject)
      with m have "label \<in> fst ` set region_sets" by force
      with notin show False ..
    qed
    moreover from this have "get_region (Str code) = Str ''Other''"
      by (rule get_region_other)
    with g have "label = ''Other''" by (simp only: cell.inject)
    ultimately show "in_bucket label code" using b by (simp only: simp_thms)
  qed
next
  case (Some codes)
  then have m: "(label, codes) \<in> set region_sets"
    by (rule map_of_SomeD)
  have b: "in_bucket label code \<longleftrightarrow> code \<in> set codes"
    using Some by (simp add: in_bucket_def)
  show ?thesis
  proof
    assume "in_bucket label code"
    with b have "code \<in> set codes" by (simp only:)
    with m show "get_region (Str code) = Str label" by (rule get_region_named)
  next
    assume g: "get_region (Str code) = Str label"
    have "\<not> (\<forall>(n, cs) \<in> set region_sets. code \<notin> set cs)"
    proof
      assume "\<forall>(n, cs) \<in> set region_sets. code \<notin> set cs"
      then have "get_region (Str code) = Str ''Other''" by (rule get_region_other)
      with g have "label = ''Other''" by (simp only: cell.inject)
      with Some show False by (simp add: region_sets_def)
    qed
    then obtain n cs where m': "(n, cs) \<in> set region_sets" and c: "code \<in> set cs"
      by auto
    from get_region_named [OF m' c] g have "n = label" by (simp only: cell.inject)
    with m' have "map_of region_sets label = Some cs"
      by (simp only: region_sets_names)
    with Some have "cs = codes" by simp
    with c b show "in_bucket label code" by (simp only:)
  qed
qed

text \<open>
  C8.  The five sets are pairwise disjoint; every code lies in exactly one of the six
  buckets (a named set, or \<open>Other\<close>), and the label \<open>get_region\<close> gives is the label
  of that bucket.
\<close>

theorem region_partition:
  "set americas \<inter> set europe = {} \<and> set americas \<inter> set asia = {}
   \<and> set americas \<inter> set oceania = {} \<and> set americas \<inter> set africa = {}
   \<and> set europe \<inter> set asia = {} \<and> set europe \<inter> set oceania = {}
   \<and> set europe \<inter> set africa = {} \<and> set asia \<inter> set oceania = {}
   \<and> set asia \<inter> set africa = {} \<and> set oceania \<inter> set africa = {}
   \<and> (\<exists>!label. label \<in> set region_labels \<and> in_bucket label code)
   \<and> (\<exists>label. label \<in> set region_labels \<and> in_bucket label code
         \<and> get_region (Str code) = Str label)"
proof -
  obtain l where l: "l \<in> set region_labels" "get_region (Str code) = Str l"
    using get_region_label by blast
  then have b: "in_bucket l code" by (simp only: in_bucket_get_region)
  have u: "\<exists>!label. label \<in> set region_labels \<and> in_bucket label code"
  proof (rule ex1I [of _ l])
    show "l \<in> set region_labels \<and> in_bucket l code" using l b by (simp only: simp_thms)
  next
    fix label assume "label \<in> set region_labels \<and> in_bucket label code"
    then have "get_region (Str code) = Str label" by (simp only: in_bucket_get_region)
    with l show "label = l" by (simp only: cell.inject)
  qed
  have e: "\<exists>label. label \<in> set region_labels \<and> in_bucket label code
         \<and> get_region (Str code) = Str label"
    using l b by blast
  show ?thesis
    by (intro conjI region_sets_disjoint u e)
qed

section \<open>The Enrichment Transform as a whole\<close>

subsection \<open>It returns on every raw table\<close>

lemma cut_cell_total: "\<not> is_str c \<Longrightarrow> \<exists>t. cut_cell bins labels c = Inr t"
  by (cases c) (simp_all add: cut_cell_def is_str_def Let_def)

lemma column_all_getitem:
  "column_all df c P \<longleftrightarrow> (\<exists>s. getitem df c = Inr s \<and> list_all P s)"
  by (simp add: column_all_def getitem_Inr_iff split: option.splits)

lemma cut_remote_total:
  assumes "list_all (\<lambda>c. \<not> is_str c) s"
  shows "\<exists>r. cut s remote_bins remote_labels = Inr r"
proof -
  have "\<exists>r. series_apply (cut_cell remote_bins remote_labels) s = Inr r"
    using assms by (intro series_apply_total cut_cell_total) (simp add: list_all_iff)
  then show ?thesis
    by (simp add: cut_def remote_bins_def remote_labels_def)
qed

lemma categorize_job_total:
  assumes "list_all is_str s"
  shows "\<exists>j. series_apply categorize_job s = Inr j"
proof (rule series_apply_total)
  fix c assume "c \<in> set s"
  with assms have "is_str c" by (simp add: list_all_iff)
  then obtain t where "c = Str t" by (cases c) (simp_all add: is_str_def)
  then show "\<exists>y. categorize_job c = Inr y" by (simp add: categorize_job_Str)
qed

lemma load_data_total:
  assumes "raw_table df"
  shows "\<exists>df'. load_data df = Inr df'"
proof -
  from assms obtain s1 s2 s3 s5 where
    s: "getitem df ''experience_level'' = Inr s1" "getitem df ''employment_type'' = Inr s2"
       "getitem df ''company_size'' = Inr s3" "getitem df ''company_location'' = Inr s5"
    unfolding raw_table_def has_columns_Cons column_present by blast
  from assms obtain s4 where s4: "getitem df ''remote_ratio'' = Inr s4"
    and a4: "list_all (\<lambda>c. \<not> is_str c) s4"
    unfolding raw_table_def column_all_getitem by blast
  from assms obtain s6 where s6: "getitem df ''job_title'' = Inr s6"
    and a6: "list_all is_str s6"
    unfolding raw_table_def column_all_getitem by blast
  from cut_remote_total [OF a4] obtain r where r: "cut s4 remote_bins remote_labels = Inr r" ..
  from categorize_job_total [OF a6] obtain j where j: "series_apply categorize_job s6 = Inr j" ..
  show ?thesis
    unfolding load_data_Inr_iff using s s4 s6 r j by (simp only: sum.inject simp_thms ex_simps)
qed


subsection \<open>The shape and the columns of the result\<close>

lemma series_apply_length: "series_apply f s = Inr t \<Longrightarrow> length t = length s"
  by (simp add: series_apply_Inr_iff list_all2_lengthD)

lemma cut_length: "cut s bins labels = Inr r \<Longrightarrow> length r = length s"
  by (simp add: cut_def series_apply_length split: if_splits)

lemma getitem_length: "wf_df df \<Longrightarrow> getitem df c = Inr s \<Longrightarrow> length s = length (index df)"
  by (simp add: getitem_Inr_iff wf_df_length)

lemma load_data_shape:
  assumes "wf_df df" and "load_data df = Inr df'"
  shows "index df' = index df" and "wf_df df'"
    and "set (column_names df') =
           set (column_names df) \<union> {''remote_work_type'', ''region'', ''job_category''}"
proof -
  from assms(2) obtain s1 s2 s3 s4 r s5 s6 j where
    s: "getitem df ''experience_level'' = Inr s1" "getitem df ''employment_type'' = Inr s2"
       "getitem df ''company_size'' = Inr s3" "getitem df ''remote_ratio'' = Inr s4"
       "getitem df ''company_location'' = Inr s5" "getitem df ''job_title'' = Inr s6" and
    r: "cut s4 remote_bins remote_labels = Inr r" and
    j: "series_apply categorize_job s6 = Inr j" and
    df': "df' = setitem (setitem (setitem (setitem (setitem (setitem df
                ''experience_level'' (series_map exp_level_map s1))
                ''employment_type'' (series_map emp_type_map s2))
                ''company_size'' (series_map company_size_map s3))
                ''remote_work_type'' r)
                ''region'' (map get_region s5))
                ''job_category'' j"
    unfolding load_data_Inr_iff by blast
  note len = s [THEN getitem_length [OF assms(1)]]
  show "index df' = index df"
    by (simp only: df' index_setitem)
  have l1: "length (series_map exp_level_map s1) = length (index df)"
    and l2: "length (series_map emp_type_map s2) = length (index df)"
    and l3: "length (series_map company_size_map s3) = length (index df)"
    and l4: "length r = length (index df)"
    and l5: "length (map get_region s5) = length (index df)"
    and l6: "length j = length (index df)"
    using len cut_length [OF r] series_apply_length [OF j]
    by (simp_all add: series_map_def)
  show "wf_df df'"
    unfolding df'
    by (intro wf_df_setitem assms(1)) (simp_all only: index_setitem l1 l2 l3 l4 l5 l6)
  have "''experience_level'' \<in> set (column_names df)"
    "''employment_type'' \<in> set (column_names df)" "''company_size'' \<in> set (column_names df)"
    using s unfolding column_present by blast+
  then show "set (column_names df') =
           set (column_names df) \<union> {''remote_work_type'', ''region'', ''job_category''}"
    unfolding df' column_names_setitem
    by (simp only: insert_absorb Un_insert_right Un_empty_right insert_commute)
qed

lemma load_data_untouched:
  assumes "load_data df = Inr df'"
    and "c \<notin> set [''experience_level'', ''employment_type'', ''company_size'',
                   ''remote_work_type'', ''region'', ''job_category'']"
  shows "getitem df' c = getitem df c"
  using assms by (auto simp: load_data_Inr_iff getitem_setitem)

lemma load_data_recoded:
  assumes "load_data df = Inr df'"
  shows "cell_at df ''experience_level'' i = Some c \<Longrightarrow>
           cell_at df' ''experience_level'' i = Some (map_cell exp_level_map c)"
    and "cell_at df ''employment_type'' i = Some c \<Longrightarrow>
           cell_at df' ''employment_type'' i = Some (map_cell emp_type_map c)"
    and "cell_at df ''company_size'' i = Some c \<Longrightarrow>
           cell_at df' ''company_size'' i = Some (map_cell company_size_map c)"
proof -
  from assms obtain s1 s2 s3 where
    s: "getitem df ''experience_level'' = Inr s1" "getitem df ''employment_type'' = Inr s2"
       "getitem df ''company_size'' = Inr s3" and
    g: "getitem df' ''experience_level'' = Inr (series_map exp_level_map s1)"
       "getitem df' ''employment_type'' = Inr (series_map emp_type_map s2)"
       "getitem df' ''company_size'' = Inr (series_map company_size_map s3)"
    by (auto simp: load_data_Inr_iff getitem_setitem)
  show "cell_at df ''experience_level'' i = Some c \<Longrightarrow>
           cell_at df' ''experience_level'' i = Some (map_cell exp_level_map c)"
    using s(1) g(1) by (auto simp: cell_at_Some_iff series_map_def)
  show "cell_at df ''employment_type'' i = Some c \<Longrightarrow>
           cell_at df' ''employment_type'' i = Some (map_cell emp_type_map c)"
    using s(2) g(2) by (auto simp: cell_at_Some_iff series_map_def)
  show "cell_at df ''company_size'' i = Some c \<Longrightarrow>
           cell_at df' ''company_size'' i = Some (map_cell company_size_map c)"
    using s(3) g(3) by (auto simp: cell_at_Some_iff series_map_def)
qed

lemma unmapped_codes:
  "k \<notin> set [''EN'', ''MI'', ''SE'', ''EX''] \<Longrightarrow> map_cell exp_level_map (Str k) = NaN"
  "k \<notin> set [''FT'', ''PT'', ''CT'', ''FL''] \<Longrightarrow> map_cell emp_type_map (Str k) = NaN"
  "k \<notin> set [''S'', ''M'', ''L''] \<Longrightarrow> map_cell company_size_map (Str k) = NaN"
  by (simp_all add: map_cell_def exp_level_map_def emp_type_map_def company_size_map_def)


lemma length_rows [simp]: "length (rows df) = length (index df)"
  by (simp add: rows_def)

text \<open>
  C5.  On every raw table \<open>load_data\<close> returns a table with the same row labels and
  the same number of rows, in which every column name of the input is still a column
  name, and \<open>remote_work_type\<close>, \<open>region\<close> and \<open>job_category\<close> are column names.
\<close>

theorem load_data_preserves:
  assumes "raw_table df"
  shows "\<exists>df'. load_data df = Inr df'
           \<and> length (rows df') = length (rows df)
           \<and> index df' = index df
           \<and> wf_df df'
           \<and> set (column_names df) \<subseteq> set (column_names df')
           \<and> ''remote_work_type'' \<in> set (column_names df')
           \<and> ''region'' \<in> set (column_names df')
           \<and> ''job_category'' \<in> set (column_names df')"
proof -
  from load_data_total [OF assms] obtain df' where l: "load_data df = Inr df'" ..
  from assms have wf: "wf_df df" by (simp add: raw_table_def)
  note sh = load_data_shape [OF wf l]
  have "length (rows df') = length (rows df)"
    by (simp only: length_rows sh(1))
  moreover have "set (column_names df) \<subseteq> set (column_names df')"
    and "''remote_work_type'' \<in> set (column_names df')"
    and "''region'' \<in> set (column_names df')"
    and "''job_category'' \<in> set (column_names df')"
    by (simp_all only: sh(3) Un_upper1 Un_iff insertI1 insert_iff simp_thms)
  ultimately show ?thesis
    using l sh(1,2) by (intro exI [of _ df'] conjI)
qed

theorem load_data_preserves_witness:
  "raw_table sample_raw
   \<and> load_data sample_raw = Inr sample_enriched
   \<and> length (rows sample_enriched) = length (rows sample_raw)
   \<and> set (column_names sample_raw) \<subseteq> set (column_names sample_enriched)
   \<and> ''remote_work_type'' \<in> set (column_names sample_enriched)
   \<and> ''region'' \<in> set (column_names sample_enriched)
   \<and> ''job_category'' \<in> set (column_names sample_enriched)"
proof -
  from load_data_preserves [OF raw_table_sample] obtain df' where
    l: "load_data sample_raw = Inr df'" and
    p: "length (rows df') = length (rows sample_raw)"
       "set (column_names sample_raw) \<subseteq> set (column_names df')"
       "''remote_work_type'' \<in> set (column_names df')"
       "''region'' \<in> set (column_names df')"
       "''job_category'' \<in> set (column_names df')"
    by (elim exE conjE)
  from l load_data_sample have "df' = sample_enriched"
    by (simp only: sum.inject)
  with p raw_table_sample load_data_sample show ?thesis
    by (simp only: simp_thms)
qed

text \<open>
  C7.  On every raw table \<open>load_data\<close> returns, whatever the codes are, and a row
  whose \<open>experience_level\<close>, \<open>employment_type\<close> or \<open>company_size\<close> code is no key
  of the column's dictionary has the missing value in that column of the result.
\<close>

theorem unmapped_codes_missing:
  assumes "raw_table df"
  shows "\<exists>df'. load_data df = Inr df'
     \<and> (cell_at df ''experience_level'' i = Some (Str k)
          \<and> k \<notin> set [''EN'', ''MI'', ''SE'', ''EX'']
        \<longrightarrow> cell_at df' ''experience_level'' i = Some NaN)
     \<and> (cell_at df ''employment_type'' i = Some (Str k)
          \<and> k \<notin> set [''FT'', ''PT'', ''CT'', ''FL'']
        \<longrightarrow> cell_at df' ''employment_type'' i = Some NaN)
     \<and> (cell_at df ''company_size'' i = Some (Str k)
          \<and> k \<notin> set [''S'', ''M'', ''L'']
        \<longrightarrow> cell_at df' ''company_size'' i = Some NaN)"
proof -
  from load_data_total [OF assms] obtain df' where l: "load_data df = Inr df'" ..
  note rc = load_data_recoded [OF l]
  have "cell_at df ''experience_level'' i = Some (Str k)
          \<and> k \<notin> set [''EN'', ''MI'', ''SE'', ''EX'']
        \<longrightarrow> cell_at df' ''experience_level'' i = Some NaN"
    by (intro impI, elim conjE) (simp only: rc(1) [of i "Str k"] unmapped_codes(1) [of k] simp_thms)
  moreover have "cell_at df ''employment_type'' i = Some (Str k)
          \<and> k \<notin> set [''FT'', ''PT'', ''CT'', ''FL'']
        \<longrightarrow> cell_at df' ''employment_type'' i = Some NaN"
    by (intro impI, elim conjE) (simp only: rc(2) [of i "Str k"] unmapped_codes(2) [of k] simp_thms)
  moreover have "cell_at df ''company_size'' i = Some (Str k)
          \<and> k \<notin> set [''S'', ''M'', ''L'']
        \<longrightarrow> cell_at df' ''company_size'' i = Some NaN"
    by (intro impI, elim conjE) (simp only: rc(3) [of i "Str k"] unmapped_codes(3) [of k] simp_thms)
  ultimately show ?thesis
    using l by (intro exI [of _ df'] conjI)
qed

theorem unmapped_codes_missing_witness:
  "raw_table sample_raw
   \<and> cell_at sample_raw ''experience_level'' 2 = Some (Str ''XX'')
   \<and> cell_at sample_enriched ''experience_level'' 2 = Some NaN
   \<and> cell_at sample_raw ''employment_type'' 2 = Some (Str ''ZZ'')
   \<and> cell_at sample_enriched ''employment_type'' 2 = Some NaN
   \<and> cell_at sample_raw ''company_size'' 2 = Some (Str ''XL'')
   \<and> cell_at sample_enriched ''company_size'' 2 = Some NaN"
proof -
  have h1: "cell_at sample_raw ''experience_level'' 2 = Some (Str ''XX'')
      \<and> ''XX'' \<notin> set [''EN'', ''MI'', ''SE'', ''EX'']" by code_simp
  have h2: "cell_at sample_raw ''employment_type'' 2 = Some (Str ''ZZ'')
      \<and> ''ZZ'' \<notin> set [''FT'', ''PT'', ''CT'', ''FL'']" by code_simp
  have h3: "cell_at sample_raw ''company_size'' 2 = Some (Str ''XL'')
      \<and> ''XL'' \<notin> set [''S'', ''M'', ''L'']" by code_simp
  from unmapped_codes_missing [OF raw_table_sample, of 2 "''XX''"] obtain d1 where
    l1: "load_data sample_raw = Inr d1" and
    p1: "cell_at sample_raw ''experience_level'' 2 = Some (Str ''XX'')
          \<and> ''XX'' \<notin> set [''EN'', ''MI'', ''SE'', ''EX'']
        \<longrightarrow> cell_at d1 ''experience_level'' 2 = Some NaN"
    by (elim exE conjE)
  from unmapped_codes_missing [OF raw_table_sample, of 2 "''ZZ''"] obtain d2 where
    l2: "load_data sample_raw = Inr d2" and
    p2: "cell_at sample_raw ''employment_type'' 2 = Some (Str ''ZZ'')
          \<and> ''ZZ'' \<notin> set [''FT'', ''PT'', ''CT'', ''FL'']
        \<longrightarrow> cell_at d2 ''employment_type'' 2 = Some NaN"
    by (elim exE conjE)
  from unmapped_codes_missing [OF raw_table_sample, of 2 "''XL''"] obtain d3 where
    l3: "load_data sample_raw = Inr d3" and
    p3: "cell_at sample_raw ''company_size'' 2 = Some (Str ''XL'')
          \<and> ''XL'' \<notin> set [''S'', ''M'', ''L'']
        \<longrightarrow> cell_at d3 ''company_size'' 2 = Some NaN"
    by (elim exE conjE)
  from l1 l2 l3 load_data_sample
  have e: "d1 = sample_enriched" "d2 = sample_enriched" "d3 = sample_enriched"
    by (simp_all only: sum.inject)
  from p1 h1 have "cell_at d1 ''experience_level'' 2 = Some NaN" by (rule mp)
  moreover from p2 h2 have "cell_at d2 ''employment_type'' 2 = Some NaN" by (rule mp)
  moreover from p3 h3 have "cell_at d3 ''company_size'' 2 = Some NaN" by (rule mp)
  ultimately show ?thesis
    using e h1 h2 h3 raw_table_sample by (simp only: simp_thms)
qed

section \<open>The Filter Engine\<close>

subsection \<open>Boolean masks\<close>

lemma zip_nth_upt:
  "length xs = length bs \<Longrightarrow> zip xs bs = map (\<lambda>i. (xs ! i, bs ! i)) [0..<length bs]"
  by (rule nth_equalityI) simp_all

lemma select_mask_kept:
  assumes "length xs = length bs"
  shows "select_mask xs bs = map (nth xs) (filter (\<lambda>i. bs ! i) [0..<length bs])"
  unfolding select_mask_def zip_nth_upt [OF assms]
  by (simp add: filter_map comp_def)

lemma select_mask_all_True:
  assumes "length xs = length bs" and "\<forall>i < length bs. bs ! i"
  shows "select_mask xs bs = xs"
proof -
  have "filter (\<lambda>i. bs ! i) [0..<length bs] = [0..<length bs]"
    using assms(2) by (simp add: filter_id_conv)
  then have "select_mask xs bs = map (nth xs) [0..<length xs]"
    by (simp add: select_mask_kept [OF assms(1)] assms(1))
  then show ?thesis
    by (simp only: map_nth)
qed

lemma length_isin [simp]: "length (isin s vals) = length s"
  by (simp add: isin_def)

lemma nth_isin: "i < length s \<Longrightarrow> isin s vals ! i = (s ! i \<in> set vals)"
  by (simp add: isin_def)

lemma length_series_and [simp]: "length (series_and a b) = min (length a) (length b)"
  by (simp add: series_and_def)

lemma nth_series_and:
  "i < length a \<Longrightarrow> i < length b \<Longrightarrow> series_and a b ! i = (a ! i \<and> b ! i)"
  by (simp add: series_and_def)

lemma map_of_row: "map_of (row df i) c = map_option (\<lambda>s. s ! i) (map_of (columns df) c)"
  by (simp add: row_def map_of_map)

lemma allowed_row:
  "getitem df c = Inr s \<Longrightarrow> allowed (row df i) c vals = (s ! i \<in> set vals)"
  by (simp add: allowed_def map_of_row getitem_Inr_iff)


text \<open>The mask \<open>filtered_df\<close> builds is true exactly at the rows the selection
  allows.\<close>

lemma filter_mask:
  assumes "enriched_table df"
  shows "\<exists>bs. filtered_df df sel = getitem_mask df bs
            \<and> length bs = length (index df)
            \<and> (\<forall>i < length (index df). bs ! i = row_allowed sel (row df i))"
proof -
  from assms have wf: "wf_df df" by (simp add: enriched_table_def)
  from assms obtain y e j g z t where
    c: "getitem df ''work_year'' = Inr y" "getitem df ''experience_level'' = Inr e"
       "getitem df ''job_category'' = Inr j" "getitem df ''region'' = Inr g"
       "getitem df ''company_size'' = Inr z" "getitem df ''remote_work_type'' = Inr t"
    unfolding enriched_table_def filter_dimensions_def has_columns_Cons column_present
    by (elim conjE exE)
  note len = c [THEN getitem_length [OF wf]]
  define bs where "bs = series_and (series_and (series_and (series_and (series_and
          (isin y (selected_years sel))
          (isin e (selected_exp_levels sel)))
          (isin j (selected_job_cats sel)))
          (isin g (selected_regions sel)))
          (isin z (selected_company_sizes sel)))
          (isin t (selected_remote_types sel))"
  have f: "filtered_df df sel = getitem_mask df bs"
    by (simp only: filtered_df_def c and_then_Inr bs_def)
  have l: "length bs = length (index df)"
    by (simp add: bs_def len)
  have "bs ! i = row_allowed sel (row df i)" if "i < length (index df)" for i
    using that
    by (simp add: bs_def len nth_series_and nth_isin row_allowed_def c [THEN allowed_row])
  with f l show ?thesis by blast
qed

lemma rows_getitem_mask:
  assumes "wf_df df" and "length bs = length (index df)"
    and "getitem_mask df bs = Inr d"
  shows "rows d = map (row df) (filter (\<lambda>i. bs ! i) [0..<length bs])"
proof -
  let ?keep = "filter (\<lambda>i. bs ! i) [0..<length bs]"
  from assms(2,3) have d: "d = \<lparr>index = select_mask (index df) bs,
      columns = map (\<lambda>(c, s). (c, select_mask s bs)) (columns df)\<rparr>"
    by (simp add: getitem_mask_def)
  have k: "length (index d) = length ?keep"
    by (simp add: d select_mask_kept [OF assms(2) [symmetric]])
  have "row d j = row df (?keep ! j)" if "j < length ?keep" for j
  proof -
    have "(case p of (c, s) \<Rightarrow> (c, select_mask s bs ! j)) = (case p of (c, s) \<Rightarrow> (c, s ! (?keep ! j)))"
      if "p \<in> set (columns df)" for p
    proof -
      obtain c s where p: "p = (c, s)" by (cases p)
      with \<open>p \<in> set (columns df)\<close> assms(1,2) have "length s = length bs"
        by (auto simp: wf_df_def list_all_iff)
      from select_mask_kept [OF this] \<open>j < length ?keep\<close> show ?thesis
        by (simp add: p)
    qed
    then show ?thesis
      by (simp add: row_def d comp_def case_prod_beta cong: map_cong)
  qed
  then have "map (row d) [0..<length ?keep] = map (\<lambda>j. row df (?keep ! j)) [0..<length ?keep]"
    by simp
  also have "\<dots> = map (row df) (map (nth ?keep) [0..<length ?keep])"
    by (simp add: comp_def)
  also have "\<dots> = map (row df) ?keep"
    by (simp only: map_nth)
  finally show ?thesis
    by (simp add: rows_def k)
qed

lemma wf_getitem_mask:
  assumes "wf_df df" and "length bs = length (index df)"
    and "getitem_mask df bs = Inr d"
  shows "wf_df d" and "column_names d = column_names df"
proof -
  from assms(2,3) have d: "d = \<lparr>index = select_mask (index df) bs,
      columns = map (\<lambda>(c, s). (c, select_mask s bs)) (columns df)\<rparr>"
    by (simp add: getitem_mask_def)
  show n: "column_names d = column_names df"
    by (simp add: d column_names_def comp_def case_prod_beta)
  have "length (select_mask s bs) = length (select_mask (index df) bs)"
    if "(c, s) \<in> set (columns df)" for c s
  proof -
    from that assms(1,2) have "length s = length bs"
      by (auto simp: wf_df_def list_all_iff)
    then show ?thesis
      by (simp add: select_mask_kept assms(2) [symmetric])
  qed
  moreover from assms(1) n have "distinct (map fst (columns d))"
    by (simp add: wf_df_def column_names_def)
  ultimately show "wf_df d"
    by (auto simp: wf_df_def list_all_iff d)
qed


subsection \<open>What the Filter Engine returns\<close>

text \<open>The table \<open>load_data\<close> returns has the six filter dimensions as soon as the
  raw table has a \<open>work_year\<close> column.\<close>

lemma has_columns_Nil [simp]: "has_columns df []"
  by (simp add: has_columns_def)

lemma load_data_enriched:
  assumes "raw_table df" and "''work_year'' \<in> set (column_names df)"
    and "load_data df = Inr df'"
  shows "enriched_table df'"
proof -
  from assms(1) have wf: "wf_df df" by (simp add: raw_table_def)
  note sh = load_data_shape [OF wf assms(3)]
  from assms(1) have "''experience_level'' \<in> set (column_names df)"
    and "''company_size'' \<in> set (column_names df)"
    by (simp_all add: raw_table_def)
  with assms(2) show ?thesis
    by (simp add: enriched_table_def filter_dimensions_def sh(2,3))
qed

lemma subseq_select_mask:
  assumes "length xs = length bs"
  shows "subseq (select_mask xs bs) xs"
proof -
  have "subseq (map fst (filter snd (zip xs bs))) (map fst (zip xs bs))"
    by (intro subseq_map subseq_filter_left)
  with assms show ?thesis
    by (simp add: select_mask_def)
qed

lemma filtered_df_result:
  assumes "enriched_table df"
  shows "\<exists>d. filtered_df df sel = Inr d
           \<and> rows d = filter (row_allowed sel) (rows df)
           \<and> column_names d = column_names df
           \<and> subseq (index d) (index df)
           \<and> wf_df d"
proof -
  from assms have wf: "wf_df df" by (simp add: enriched_table_def)
  from filter_mask [OF assms] obtain bs where
    f: "filtered_df df sel = getitem_mask df bs" and
    l: "length bs = length (index df)" and
    b: "\<forall>i < length (index df). bs ! i = row_allowed sel (row df i)"
    by blast
  from l obtain d where g: "getitem_mask df bs = Inr d"
    by (simp add: getitem_mask_def)
  have "filter (\<lambda>i. bs ! i) [0..<length bs] =
      filter (\<lambda>i. row_allowed sel (row df i)) [0..<length bs]"
    using b l by (intro filter_cong) simp_all
  with rows_getitem_mask [OF wf l g]
  have "rows d = map (row df) (filter (\<lambda>i. row_allowed sel (row df i)) [0..<length bs])"
    by (simp only:)
  also have "\<dots> = filter (row_allowed sel) (rows df)"
    by (simp add: rows_def filter_map comp_def l)
  finally have "rows d = filter (row_allowed sel) (rows df)" .
  moreover have "subseq (index d) (index df)"
    using g l subseq_select_mask [of "index df" bs]
    by (auto simp: getitem_mask_def)
  ultimately show ?thesis
    using f g wf_getitem_mask [OF wf l g] by simp
qed

lemma allowed_empty: "\<not> allowed r c []"
  by (simp add: allowed_def split: option.splits)

lemma row_allowed_empty:
  assumes "selected_years sel = [] \<or> selected_exp_levels sel = [] \<or> selected_job_cats sel = []
     \<or> selected_regions sel = [] \<or> selected_company_sizes sel = []
     \<or> selected_remote_types sel = []"
  shows "\<not> row_allowed sel r"
  using assms by (auto simp: row_allowed_def allowed_empty)

text \<open>
  C3.  On every enriched table and for every six selections, \<open>filtered_df\<close> returns
  the rows that are allowed in all six dimensions, in their order (as rows and as row
  labels) and with the columns of the input; so it returns no more rows than it is
  given, and a table without rows, not an exception, when no row is allowed or when one
  of the selections is empty.
\<close>

theorem filtered_df_rows:
  assumes "enriched_table df"
  shows "\<exists>d. filtered_df df sel = Inr d
           \<and> rows d = filter (row_allowed sel) (rows df)
           \<and> column_names d = column_names df
           \<and> subseq (index d) (index df)
           \<and> length (rows d) \<le> length (rows df)
           \<and> ((\<forall>r \<in> set (rows df). \<not> row_allowed sel r) \<longrightarrow> rows d = [])
           \<and> (selected_years sel = [] \<or> selected_exp_levels sel = []
                \<or> selected_job_cats sel = [] \<or> selected_regions sel = []
                \<or> selected_company_sizes sel = [] \<or> selected_remote_types sel = []
              \<longrightarrow> rows d = [])"
proof -
  from filtered_df_result [OF assms] obtain d where
    d: "filtered_df df sel = Inr d" and
    r: "rows d = filter (row_allowed sel) (rows df)" and
    c: "column_names d = column_names df" and
    s: "subseq (index d) (index df)"
    by blast
  have "length (rows d) \<le> length (rows df)"
    by (simp only: r length_filter_le)
  moreover have "(\<forall>r \<in> set (rows df). \<not> row_allowed sel r) \<longrightarrow> rows d = []"
    by (simp add: r filter_empty_conv)
  moreover have "selected_years sel = [] \<or> selected_exp_levels sel = []
                \<or> selected_job_cats sel = [] \<or> selected_regions sel = []
                \<or> selected_company_sizes sel = [] \<or> selected_remote_types sel = []
              \<longrightarrow> rows d = []"
    using row_allowed_empty [of sel] by (simp only: r filter_empty_conv) blast
  ultimately show ?thesis
    using d r c s by blast
qed

theorem filtered_df_rows_witness:
  "enriched_table sample_enriched
   \<and> filtered_df sample_enriched sample_selection = Inr sample_filtered
   \<and> rows sample_filtered = filter (row_allowed sample_selection) (rows sample_enriched)
   \<and> column_names sample_filtered = column_names sample_enriched
   \<and> length (rows sample_filtered) \<le> length (rows sample_enriched)
   \<and> selected_years (sample_selection\<lparr>selected_years := []\<rparr>) = []
   \<and> filter (row_allowed (sample_selection\<lparr>selected_years := []\<rparr>))
         (rows sample_enriched) = []
   \<and> (\<exists>d. filtered_df sample_enriched (sample_selection\<lparr>selected_years := []\<rparr>) = Inr d
          \<and> rows d = [])"
proof -
  let ?none = "sample_selection\<lparr>selected_years := []\<rparr>"
  from filtered_df_rows [OF enriched_table_sample, of sample_selection] obtain d where
    d: "filtered_df sample_enriched sample_selection = Inr d" and
    p: "rows d = filter (row_allowed sample_selection) (rows sample_enriched)"
       "column_names d = column_names sample_enriched"
       "length (rows d) \<le> length (rows sample_enriched)"
    by (elim exE conjE)
  from d filtered_df_sample have "d = sample_filtered"
    by (simp only: sum.inject)
  with p have a: "rows sample_filtered = filter (row_allowed sample_selection) (rows sample_enriched)"
    "column_names sample_filtered = column_names sample_enriched"
    "length (rows sample_filtered) \<le> length (rows sample_enriched)"
    by (simp_all only:)
  have y: "selected_years ?none = []" by simp
  have n: "\<forall>r \<in> set (rows sample_enriched). \<not> row_allowed ?none r" by code_simp
  from filtered_df_rows [OF enriched_table_sample, of ?none] obtain d' where
    d': "filtered_df sample_enriched ?none = Inr d'" and
    q: "(\<forall>r \<in> set (rows sample_enriched). \<not> row_allowed ?none r) \<longrightarrow> rows d' = []"
       "selected_years ?none = [] \<or> selected_exp_levels ?none = []
          \<or> selected_job_cats ?none = [] \<or> selected_regions ?none = []
          \<or> selected_company_sizes ?none = [] \<or> selected_remote_types ?none = []
        \<longrightarrow> rows d' = []"
    by (elim exE conjE)
  from q(1) n have e1: "rows d' = []" by (rule mp)
  from q(2) y have e2: "rows d' = []" by (simp only: simp_thms)
  from n have f: "filter (row_allowed ?none) (rows sample_enriched) = []"
    by (simp only: filter_empty_conv)
  from d' e1 e2 have "\<exists>d. filtered_df sample_enriched ?none = Inr d \<and> rows d = []"
    by (intro exI [of _ d'] conjI)
  with a y f enriched_table_sample filtered_df_sample show ?thesis
    by (intro conjI)
qed

text \<open>
  C9.  Filtering is idempotent: \<open>filtered_df\<close> applied, with the same selections, to
  the table it returned, returns that table.
\<close>

theorem filtered_df_idempotent:
  assumes "enriched_table df"
  shows "\<exists>d. filtered_df df sel = Inr d \<and> filtered_df d sel = Inr d"
proof -
  from filtered_df_result [OF assms] obtain d where
    d: "filtered_df df sel = Inr d" and
    r: "rows d = filter (row_allowed sel) (rows df)" and
    c: "column_names d = column_names df" and
    wf: "wf_df d"
    by blast
  from assms c wf have e: "enriched_table d"
    by (simp add: enriched_table_def has_columns_def)
  from filter_mask [OF e] obtain bs where
    f: "filtered_df d sel = getitem_mask d bs" and
    l: "length bs = length (index d)" and
    b: "\<forall>i < length (index d). bs ! i = row_allowed sel (row d i)"
    by blast
  have t: "\<forall>i < length bs. bs ! i"
  proof (intro allI impI)
    fix i assume i: "i < length bs"
    with l have "row d i \<in> set (rows d)"
      by (simp add: rows_def)
    then have "row_allowed sel (row d i)"
      by (simp add: r)
    with b i l show "bs ! i" by simp
  qed
  have "select_mask s bs = s" if "(c, s) \<in> set (columns d)" for c s
  proof -
    from that wf l have "length s = length bs"
      by (auto simp: wf_df_def list_all_iff)
    then show ?thesis using t by (rule select_mask_all_True)
  qed
  then have "map (\<lambda>(c, s). (c, select_mask s bs)) (columns d) = columns d"
    by (intro map_idI) auto
  moreover have "select_mask (index d) bs = index d"
    using l t by (intro select_mask_all_True) simp_all
  ultimately have "getitem_mask d bs = Inr d"
    using l by (simp add: getitem_mask_def)
  with d f show ?thesis by simp
qed

theorem filtered_df_idempotent_witness:
  "enriched_table sample_enriched
   \<and> filtered_df sample_enriched sample_selection = Inr sample_filtered
   \<and> filtered_df sample_filtered sample_selection = Inr sample_filtered"
proof -
  from filtered_df_idempotent [OF enriched_table_sample, of sample_selection] obtain d where
    d: "filtered_df sample_enriched sample_selection = Inr d" and
    i: "filtered_df d sample_selection = Inr d"
    by (elim exE conjE)
  from d filtered_df_sample have "d = sample_filtered"
    by (simp only: sum.inject)
  with i enriched_table_sample filtered_df_sample show ?thesis
    by (simp only: simp_thms)
qed

end
